theory Spec2Isabelle
  imports Main "HOL-Library.Word"
begin

section \<open>GitHub profile search: the search pipeline, its rate gate and its helpers\<close>

text \<open>
  A shallow embedding of the class \<open>GitHubProfileSearch\<close> of \<open>script.js\<close>: the methods
  \<open>handleSearch\<close>, \<open>fetchUserProfile\<close>, \<open>fetchUserRepositories\<close>, \<open>displayProfile\<close>,
  \<open>updateRateLimit\<close>, \<open>checkRateLimit\<close>, \<open>formatNumber\<close> and the closure \<open>addToHistory\<close>.
  Fields that the methods mutate (\<open>this.rateLimit\<close>, the \<open>history\<close> array,
  \<open>localStorage\<close>) are passed in and returned; a thrown \<open>Error\<close> or a rejected promise is the left summand of a sum type,
  carrying the message that \<open>handleError\<close> hands to \<open>showError\<close>. The method
  \<open>formatJoinDate\<close> is left out: all it computes is the result of the host's
  \<open>toLocaleDateString\<close>, behind the prefix \<open>Joined\<close>.
\<close>

subsection \<open>JavaScript strings\<close>

text \<open>
  A JavaScript string is a sequence of 16-bit code units. String literals of the source
  are ASCII and are written \<open>js ''...''\<close>.
\<close>

type_synonym jsstring = "16 word list"

definition js :: "string \<Rightarrow> jsstring" where
  "js s = map of_char s"

text \<open>
  \<open>String.prototype.trim\<close> removes white space and line terminators at both ends:
  TAB, LF, VT, FF, CR, SPACE, NO-BREAK SPACE, the other code points of category Zs
  (U+1680, U+2000 to U+200A, U+202F, U+205F, U+3000), LS, PS and the byte order mark.
\<close>

definition isWhiteSpace :: "16 word \<Rightarrow> bool" where
  "isWhiteSpace c \<longleftrightarrow>
     c = 0x0009 \<or> c = 0x000A \<or> c = 0x000B \<or> c = 0x000C \<or> c = 0x000D \<or> c = 0x0020 \<or>
     c = 0x00A0 \<or> c = 0x1680 \<or> (0x2000 \<le> c \<and> c \<le> 0x200A) \<or> c = 0x2028 \<or>
     c = 0x2029 \<or> c = 0x202F \<or> c = 0x205F \<or> c = 0x3000 \<or> c = 0xFEFF"

definition trim :: "jsstring \<Rightarrow> jsstring" where
  "trim s = rev (dropWhile isWhiteSpace (rev (dropWhile isWhiteSpace s)))"

subsection \<open>Numbers, \<open>parseInt\<close> and \<open>Date\<close>\<close>

text \<open>
  The two fields of \<open>this.rateLimit\<close> hold results of \<open>parseInt\<close>: an integer or \<open>NaN\<close>.
  \<open>Num i\<close> stands for the double nearest to \<open>i\<close>. The only operations the rate gate
  applies to these numbers are the test \<open>\<le> 0\<close> and the product with 1000 followed by the
  range check of the \<open>Date\<close> constructor; both give on \<open>i\<close> the answer they give on that
  double (the product is exact below \<open>2 ^ 53\<close>, and the range check fails from
  \<open>8.64 * 10 ^ 15\<close> on, which is smaller).
\<close>

datatype number = NaN | Num int

definition digitValue :: "16 word \<Rightarrow> nat option" where
  "digitValue c =
     (if 0x30 \<le> c \<and> c \<le> 0x39 then Some (unat c - 0x30)
      else if 0x61 \<le> c \<and> c \<le> 0x7A then Some (unat c - 0x61 + 10)
      else if 0x41 \<le> c \<and> c \<le> 0x5A then Some (unat c - 0x41 + 10)
      else None)"

definition isRadixDigit :: "nat \<Rightarrow> 16 word \<Rightarrow> bool" where
  "isRadixDigit R c = (case digitValue c of None \<Rightarrow> False | Some v \<Rightarrow> v < R)"

definition radixValue :: "nat \<Rightarrow> jsstring \<Rightarrow> nat" where
  "radixValue R Z = foldl (\<lambda>a c. a * R + the (digitValue c)) 0 Z"

text \<open>
  \<open>parseInt(string)\<close> with no radix argument: skip leading white space, read a sign,
  read the prefix \<open>0x\<close> or \<open>0X\<close> (radix 16, otherwise radix 10), take the longest run of
  digits of that radix; no digit at all gives \<open>NaN\<close>.
\<close>

definition parseInt :: "jsstring \<Rightarrow> number" where
  "parseInt string =
     (let S = dropWhile isWhiteSpace string;
          negative = (S \<noteq> [] \<and> hd S = 0x2D);
          S1 = (if S \<noteq> [] \<and> (hd S = 0x2B \<or> hd S = 0x2D) then tl S else S);
          hex = (take 2 S1 = js ''0x'' \<or> take 2 S1 = js ''0X'');
          R = (if hex then 16 else 10);
          S2 = (if hex then drop 2 S1 else S1);
          Z = takeWhile (isRadixDigit R) S2
      in if Z = [] then NaN
         else Num ((if negative then - 1 else 1) * int (radixValue R Z)))"

text \<open>
  \<open>new Date(value)\<close> for a number: the time value in milliseconds, or an invalid date
  (\<open>None\<close>) when the number is \<open>NaN\<close> or beyond 8.64e15 milliseconds from the epoch.
\<close>

definition multiply :: "number \<Rightarrow> int \<Rightarrow> number" where
  "multiply x k = (case x of NaN \<Rightarrow> NaN | Num i \<Rightarrow> Num (i * k))"

definition newDate :: "number \<Rightarrow> int option" where
  "newDate v =
     (case v of
        NaN \<Rightarrow> None
      | Num t \<Rightarrow> if \<bar>t\<bar> \<le> 8640000000000000 then Some t else None)"

definition lessEqZero :: "number \<Rightarrow> bool" where
  "lessEqZero x = (case x of NaN \<Rightarrow> False | Num i \<Rightarrow> i \<le> 0)"

subsection \<open>The rate gate\<close>

record rateLimit =
  remaining :: number
  reset :: number

definition initialRateLimit :: rateLimit where
  "initialRateLimit = \<lparr>remaining = Num 60, reset = Num 0\<rparr>"

text \<open>
  \<open>headers.get(name)\<close> is \<open>null\<close> (\<open>None\<close>) for an absent header; \<open>v || '0'\<close> replaces
  \<open>null\<close> and the empty string by \<open>'0'\<close>.
\<close>

type_synonym headers = "string \<Rightarrow> jsstring option"

definition orElse :: "jsstring option \<Rightarrow> jsstring \<Rightarrow> jsstring" where
  "orElse v d = (case v of None \<Rightarrow> d | Some s \<Rightarrow> if s = [] then d else s)"

definition updateRateLimit :: "headers \<Rightarrow> rateLimit \<Rightarrow> rateLimit" where
  "updateRateLimit hdrs st =
     st\<lparr>remaining := parseInt (orElse (hdrs ''X-RateLimit-Remaining'') (js ''0'')),
        reset := parseInt (orElse (hdrs ''X-RateLimit-Reset'') (js ''0''))\<rparr>"

text \<open>
  \<open>checkRateLimit\<close>; \<open>now\<close> is the time value of \<open>new Date()\<close>, in milliseconds. A
  comparison with an invalid date is false.
\<close>

definition checkRateLimit :: "int \<Rightarrow> rateLimit \<Rightarrow> bool" where
  "checkRateLimit now st =
     (if lessEqZero (remaining st)
      then (case newDate (multiply (reset st) 1000) of
              None \<Rightarrow> True
            | Some resetTime \<Rightarrow> if now < resetTime then False else True)
      else True)"

subsection \<open>JSON values and \<open>displayProfile\<close>\<close>

text \<open>
  The value that \<open>response.json()\<close> yields: \<open>null\<close>, a boolean, a number (a double, given by
  a significand and a binary exponent), a string, an array, or an object with its own
  properties.
\<close>

datatype json =
  JNull | JBoolean bool | JNumber int int | JString jsstring | JArray "json list"
| JObject "(jsstring \<times> json) list"

text \<open>
  \<open>value.name\<close> for a value other than \<open>null\<close> and for the names that \<open>displayProfile\<close> reads,
  none of which a prototype defines: the own property of an object, \<open>undefined\<close> (\<open>None\<close>)
  otherwise.
\<close>

definition property :: "json \<Rightarrow> string \<Rightarrow> json option" where
  "property v name = (case v of JObject members \<Rightarrow> map_of members (js name) | _ \<Rightarrow> None)"

text \<open>\<open>a || b\<close>: \<open>a\<close> unless it is \<open>undefined\<close>, \<open>null\<close>, \<open>false\<close>, zero or the empty string.\<close>

fun truthy :: "json option \<Rightarrow> bool" where
  "truthy None = False"
| "truthy (Some JNull) = False"
| "truthy (Some (JBoolean b)) = b"
| "truthy (Some (JNumber m e)) = (m \<noteq> 0)"
| "truthy (Some (JString s)) = (s \<noteq> [])"
| "truthy (Some (JArray elements)) = True"
| "truthy (Some (JObject members)) = True"

definition orValue :: "json option \<Rightarrow> json option \<Rightarrow> json option" where
  "orValue a b = (if truthy a then a else b)"

text \<open>
  The conversion of a value to a primitive throws a \<open>TypeError\<close> for an object with an own
  property \<open>toString\<close>, which shadows the method and is no function, and for an array whose
  \<open>join\<close> meets such an object. Every other value converts: an object to
  \<open>[object Object]\<close>, an array to its joined elements.
\<close>

fun noPrimitive :: "json \<Rightarrow> bool" where
  "noPrimitive (JObject members) = (js ''toString'' \<in> fst ` set members)"
| "noPrimitive (JArray elements) = list_ex noPrimitive elements"
| "noPrimitive JNull = False"
| "noPrimitive (JBoolean b) = False"
| "noPrimitive (JNumber m e) = False"
| "noPrimitive (JString s) = False"

text \<open>
  A value is converted to a string when it is assigned to \<open>textContent\<close>, \<open>src\<close> or \<open>href\<close> or
  stands in a template literal, and to a primitive by \<open>new Date(value)\<close>. \<open>formatNumber(num)\<close>
  converts \<open>num\<close> to a number for its comparisons; it ends in \<open>num.toString()\<close>, which throws
  for \<open>undefined\<close> and \<open>null\<close>.
\<close>

definition toStringThrows :: "json option \<Rightarrow> bool" where
  "toStringThrows v = (case v of None \<Rightarrow> False | Some x \<Rightarrow> noPrimitive x)"

definition formatNumberThrows :: "json option \<Rightarrow> bool" where
  "formatNumberThrows num \<longleftrightarrow> toStringThrows num \<or> num = None \<or> num = Some JNull"

text \<open>
  \<open>displayProfile(profile, repos)\<close>, statement by statement: whether one of them throws.
  The elements of the page that \<open>initializeElements\<close> looks up are taken to exist.
\<close>

definition displayProfileThrows :: "json \<Rightarrow> bool" where
  "displayProfileThrows profile \<longleftrightarrow>
     profile = JNull \<or>
     toStringThrows (property profile ''avatar_url'') \<or>
     toStringThrows (orValue (property profile ''name'') (property profile ''login'')) \<or>
     toStringThrows (property profile ''login'') \<or>
     toStringThrows (orValue (property profile ''bio'') (Some (JString (js ''No bio available'')))) \<or>
     formatNumberThrows (property profile ''followers'') \<or>
     formatNumberThrows (property profile ''following'') \<or>
     formatNumberThrows (property profile ''public_repos'') \<or>
     toStringThrows (orValue (property profile ''location'') (Some (JString (js ''Not specified'')))) \<or>
     toStringThrows (orValue (property profile ''blog'') (Some (JString (js ''Not specified'')))) \<or>
     toStringThrows (orValue (property profile ''blog'') (Some (JString (js ''#'')))) \<or>
     toStringThrows (property profile ''created_at'') \<or>
     toStringThrows (orValue (property profile ''company'') (Some (JString (js ''Not specified'')))) \<or>
     toStringThrows (property profile ''html_url'')"

text \<open>
  The error that \<open>displayProfile\<close> throws is a \<open>TypeError\<close> of the engine, and its message is
  the engine's: for each profile the engine fixes the message of the error that
  \<open>displayProfile\<close> throws on it. A call that does not throw leaves the profile and the
  repositories on display.
\<close>

record engine =
  typeErrorMessage :: "json \<Rightarrow> jsstring"

definition displayProfile :: "engine \<Rightarrow> json \<Rightarrow> 'r list \<Rightarrow> jsstring + json \<times> 'r list" where
  "displayProfile engine profile repos =
     (if displayProfileThrows profile then Inl (typeErrorMessage engine profile)
      else Inr (profile, repos))"

subsection \<open>The network\<close>

text \<open>
  \<open>fetch(url)\<close> either rejects (a transport failure, with the message of the error) or
  resolves to a response: a status, headers, and a body whose \<open>response.json()\<close> either
  rejects (\<open>Inl\<close>, the message of the syntax error) or yields the parsed value.
  The body of the profile endpoint is any JSON value, since \<open>displayProfile\<close> reads its
  properties; that of the repository endpoint, which a search only stores, is an array of
  objects of some type \<open>'r\<close>.
\<close>

record 'a response =
  status :: nat
  headers :: headers
  json :: "jsstring + 'a"

datatype 'a fetched = Rejects jsstring | Resolves "'a response"

definition ok :: "'a response \<Rightarrow> bool" where
  "ok response \<longleftrightarrow> 200 \<le> status response \<and> status response \<le> 299"

text \<open>
  The network answers each of the two requests of a search. \<open>Promise.all\<close> rejects with the
  reason of the promise that rejects first, so where both \<open>fetchUserProfile\<close> and
  \<open>fetchUserRepositories\<close> reject, the order in which they settle decides; the network
  fixes that order too.
\<close>

record 'r network =
  profileEndpoint :: "jsstring \<Rightarrow> json fetched"
  reposEndpoint :: "jsstring \<Rightarrow> 'r list fetched"
  reposSettleFirst :: bool

definition apiBase :: jsstring where
  "apiBase = js ''https://api.github.com''"

definition profileUrl :: "jsstring \<Rightarrow> jsstring" where
  "profileUrl username = apiBase @ js ''/users/'' @ username"

definition reposUrl :: "jsstring \<Rightarrow> jsstring" where
  "reposUrl username = apiBase @ js ''/users/'' @ username @ js ''/repos?sort=updated&per_page=6''"

subsection \<open>The search pipeline\<close>

definition fetchUserProfile ::
  "'r network \<Rightarrow> rateLimit \<Rightarrow> jsstring \<Rightarrow> (jsstring + json) \<times> rateLimit" where
  "fetchUserProfile net st username =
     (case profileEndpoint net (profileUrl username) of
        Rejects e \<Rightarrow> (Inl e, st)
      | Resolves response \<Rightarrow>
          if \<not> ok response then
            (if status response = 404 then
               (Inl (js ''User not found. Please check the username and try again.''), st)
             else if status response = 403 then
               (Inl (js ''API rate limit exceeded. Please try again later.''), st)
             else
               (Inl (js ''Failed to fetch user profile. Please try again.''), st))
          else (json response, updateRateLimit (headers response) st))"

definition fetchUserRepositories :: "'r network \<Rightarrow> jsstring \<Rightarrow> jsstring + 'r list" where
  "fetchUserRepositories net username =
     (case reposEndpoint net (reposUrl username) of
        Rejects e \<Rightarrow> Inl e
      | Resolves response \<Rightarrow> if \<not> ok response then Inr [] else json response)"

text \<open>
  \<open>Promise.all([first, second])\<close>: the pair of the two values, or the reason of the
  promise that rejected first.
\<close>

fun promiseAll :: "bool \<Rightarrow> jsstring + 'a \<Rightarrow> jsstring + 'b \<Rightarrow> jsstring + 'a \<times> 'b" where
  "promiseAll secondFirst (Inl e1) (Inl e2) = Inl (if secondFirst then e2 else e1)"
| "promiseAll secondFirst (Inl e1) (Inr b) = Inl e1"
| "promiseAll secondFirst (Inr a) (Inl e2) = Inl e2"
| "promiseAll secondFirst (Inr a) (Inr b) = Inr (a, b)"

text \<open>
  What a search leaves behind: the message given to \<open>showError\<close> or the pair that
  \<open>displayProfile\<close> has put on display; the calls it made, in order, to the rate gate and
  to \<open>fetch\<close>; and \<open>this.rateLimit\<close> once both requests have settled. Inside the \<open>try\<close>
  block an error of \<open>Promise.all\<close> or of \<open>displayProfile\<close> reaches the \<open>catch\<close>, which
  shows its message.
\<close>

datatype call = CheckRateLimit | Fetch jsstring

record 'r outcome =
  shown :: "jsstring + json \<times> 'r list"
  calls :: "call list"
  rateLimitAfter :: rateLimit

definition handleSearch ::
  "engine \<Rightarrow> 'r network \<Rightarrow> int \<Rightarrow> rateLimit \<Rightarrow> jsstring \<Rightarrow> 'r outcome" where
  "handleSearch engine net now st inputValue =
     (let username = trim inputValue in
      if username = [] then
        \<lparr>shown = Inl (js ''Please enter a GitHub username''), calls = [], rateLimitAfter = st\<rparr>
      else if \<not> checkRateLimit now st then
        \<lparr>shown = Inl (js ''Rate limit exceeded. Please try again later.''),
         calls = [CheckRateLimit], rateLimitAfter = st\<rparr>
      else
        (let (profile, st') = fetchUserProfile net st username;
             repos = fetchUserRepositories net username
         in \<lparr>shown =
               (case promiseAll (reposSettleFirst net) profile repos of
                  Inl error \<Rightarrow> Inl error
                | Inr (profile, repos) \<Rightarrow> displayProfile engine profile repos),
             calls = [CheckRateLimit, Fetch (profileUrl username), Fetch (reposUrl username)],
             rateLimitAfter = st'\<rparr>))"

text \<open>
  The source has no error type, only messages. The four error kinds of the pipeline's
  contract name them: the message of the empty input, the message of the local gate and
  of a 403 response, the message of a 404 response; every other message (the one of an
  unexpected status, the one of a rejected \<open>fetch\<close> or \<open>json()\<close>, or the one of an error of
  \<open>displayProfile\<close>) is a failed fetch.
\<close>

datatype SearchError = InvalidInput | UserNotFound | RateLimited | FetchFailed

definition searchError :: "jsstring \<Rightarrow> SearchError" where
  "searchError message =
     (if message = js ''Please enter a GitHub username'' then InvalidInput
      else if message = js ''User not found. Please check the username and try again.''
        then UserNotFound
      else if message = js ''Rate limit exceeded. Please try again later.''
           \<or> message = js ''API rate limit exceeded. Please try again later.''
        then RateLimited
      else FetchFailed)"

subsection \<open>Search history\<close>

text \<open>
  \<open>addSearchHistory\<close> reads the array \<open>history\<close> from \<open>localStorage\<close> once;
  \<open>addToHistory\<close> updates the array and writes it back under the same key. The stored
  JSON text is modelled by the list it encodes.
\<close>

type_synonym localStorage = "string \<Rightarrow> jsstring list option"

record searchHistory =
  history :: "jsstring list"
  storage :: localStorage

definition loadHistory :: "localStorage \<Rightarrow> searchHistory" where
  "loadHistory st =
     \<lparr>history = (case st ''github-search-history'' of None \<Rightarrow> [] | Some h \<Rightarrow> h), storage = st\<rparr>"

definition addToHistory :: "jsstring \<Rightarrow> searchHistory \<Rightarrow> searchHistory" where
  "addToHistory username s =
     (if username \<notin> set (history s) then
        (let unshifted = username # history s;
             h = (if length unshifted > 5 then butlast unshifted else unshifted)
         in \<lparr>history = h, storage = (storage s)(''github-search-history'' \<mapsto> h)\<rparr>)
      else s)"

subsection \<open>Formatting numbers\<close>

text \<open>
  \<open>num.toString()\<close> for a non-negative integer: its decimal digits.
\<close>

fun toStringNat :: "nat \<Rightarrow> jsstring" where
  "toStringNat n =
     (if n < 10 then [of_nat (48 + n)] else toStringNat (n div 10) @ [of_nat (48 + n mod 10)])"

declare toStringNat.simps [simp del]

text \<open>
  \<open>num / 1000\<close> is a division of doubles: the quotient is rounded to the nearest number
  with a significand of 53 bits, ties to the even significand. For positive integers
  \<open>n\<close> and \<open>d\<close> with \<open>d \<le> n < 2 ^ 53\<close> (the integers that a JSON count gives exactly) the
  double is \<open>m / 2 ^ k\<close>, where \<open>k\<close> is the least exponent with \<open>2 ^ 52 \<le> n * 2 ^ k / d\<close>
  and \<open>m\<close> is \<open>n * 2 ^ k / d\<close> rounded. \<open>binaryExponent\<close> searches \<open>k\<close> upwards.
\<close>

function binaryExponent :: "nat \<Rightarrow> nat \<Rightarrow> nat \<Rightarrow> nat" where
  "binaryExponent n d k =
     (if n = 0 \<or> 2 ^ 52 * d \<le> n * 2 ^ k then k else binaryExponent n d (Suc k))"
  by pat_completeness auto
termination
proof (relation "measure (\<lambda>(n, d, k). 2 ^ 52 * d - n * 2 ^ k)")
  show "wf (measure (\<lambda>(n, d, k). 2 ^ 52 * d - n * 2 ^ k))" by simp
next
  fix n d k :: nat
  assume "\<not> (n = 0 \<or> 2 ^ 52 * d \<le> n * 2 ^ k)"
  then have pos: "0 < n * 2 ^ k" and below: "n * 2 ^ k < 2 ^ 52 * d" by simp_all
  have "n * 2 ^ Suc k = 2 * (n * 2 ^ k)" by simp
  with pos below have "2 ^ 52 * d - n * 2 ^ Suc k < 2 ^ 52 * d - n * 2 ^ k" by linarith
  then show "((n, d, Suc k), (n, d, k)) \<in> measure (\<lambda>(n, d, k). 2 ^ 52 * d - n * 2 ^ k)"
    by simp
qed

declare binaryExponent.simps [simp del]

definition roundHalfEven :: "nat \<Rightarrow> nat \<Rightarrow> nat" where
  "roundHalfEven a b =
     (let q = a div b; r = a mod b
      in if 2 * r < b then q else if b < 2 * r then q + 1 else if even q then q else q + 1)"

record double =
  significand :: nat
  exponent :: nat

definition quotient :: "nat \<Rightarrow> nat \<Rightarrow> double" where
  "quotient n d =
     (let k = binaryExponent n d 0
      in \<lparr>significand = roundHalfEven (n * 2 ^ k) d, exponent = k\<rparr>)"

text \<open>
  \<open>x.toFixed(1)\<close> takes the integer \<open>n\<close> for which \<open>n / 10 - x\<close> is closest to zero, the
  larger one of two, and prints it with a point before its last digit.
\<close>

definition tenths :: "double \<Rightarrow> nat" where
  "tenths x = (20 * significand x + 2 ^ exponent x) div 2 ^ (exponent x + 1)"

definition oneDecimal :: "nat \<Rightarrow> jsstring" where
  "oneDecimal n = toStringNat (n div 10) @ js ''.'' @ toStringNat (n mod 10)"

definition toFixed1 :: "double \<Rightarrow> jsstring" where
  "toFixed1 x = oneDecimal (tenths x)"

definition formatNumber :: "nat \<Rightarrow> jsstring" where
  "formatNumber num =
     (if num \<ge> 1000000 then toFixed1 (quotient num 1000000) @ js ''M''
      else if num \<ge> 1000 then toFixed1 (quotient num 1000) @ js ''K''
      else toStringNat num)"

subsection \<open>Vocabulary of the properties\<close>

text \<open>The error kind of a search, when it ends in an error.\<close>

definition errorKind :: "'r outcome \<Rightarrow> SearchError option" where
  "errorKind out = (case shown out of Inl message \<Rightarrow> Some (searchError message) | Inr _ \<Rightarrow> None)"

text \<open>
  The repository promise rejects (the request fails in transport, or the body of a
  successful response does not parse) and does so before the profile promise settles.
\<close>

definition reposRejectFirst :: "'r network \<Rightarrow> jsstring \<Rightarrow> bool" where
  "reposRejectFirst net username =
     (case fetchUserRepositories net username of
        Inl _ \<Rightarrow> reposSettleFirst net
      | Inr _ \<Rightarrow> False)"

text \<open>
  A rate-limit header is missing when \<open>headers.get\<close> gives \<open>null\<close> or the empty string, and
  unparseable when it has a text in which \<open>parseInt\<close> finds no integer.
\<close>

definition headerMissing :: "jsstring option \<Rightarrow> bool" where
  "headerMissing v \<longleftrightarrow> v = None \<or> v = Some []"

definition headerUnparseable :: "jsstring option \<Rightarrow> bool" where
  "headerUnparseable v = (case v of None \<Rightarrow> False | Some s \<Rightarrow> s \<noteq> [] \<and> parseInt s = NaN)"

text \<open>A history of at most five usernames, no two alike, in memory and in storage.\<close>

definition boundedDistinct :: "jsstring list \<Rightarrow> bool" where
  "boundedDistinct h \<longleftrightarrow> length h \<le> 5 \<and> distinct h"

definition persisted :: "searchHistory \<Rightarrow> jsstring list" where
  "persisted s = (case storage s ''github-search-history'' of None \<Rightarrow> [] | Some h \<Rightarrow> h)"

fun searches :: "jsstring list \<Rightarrow> searchHistory \<Rightarrow> searchHistory" where
  "searches [] s = s"
| "searches (username # rest) s = searches rest (addToHistory username s)"

text \<open>
  \<open>q\<close> tenths are a nearest tenth of \<open>n / unit\<close>: \<open>q / 10\<close> and \<open>n / unit\<close> differ by at
  most one twentieth.
\<close>

definition nearestTenth :: "nat \<Rightarrow> nat \<Rightarrow> nat \<Rightarrow> bool" where
  "nearestTenth n unit q \<longleftrightarrow> 2 * unit * q \<le> 20 * n + unit \<and> 20 * n \<le> 2 * unit * q + unit"

subsection \<open>Sample engine, profiles and networks\<close>

definition sampleEngine :: engine where
  "sampleEngine = \<lparr>typeErrorMessage = (\<lambda>profile. js ''num is undefined'')\<rparr>"

definition octocatProfile :: json where
  "octocatProfile = JObject
     [(js ''login'', JString (js ''octocat'')),
      (js ''avatar_url'', JString (js ''https://avatars.githubusercontent.com/u/583231'')),
      (js ''html_url'', JString (js ''https://github.com/octocat'')),
      (js ''name'', JString (js ''The Octocat'')),
      (js ''company'', JString (js ''@github'')),
      (js ''blog'', JString (js ''https://github.blog'')),
      (js ''location'', JString (js ''San Francisco'')),
      (js ''bio'', JNull),
      (js ''public_repos'', JNumber 8 0),
      (js ''followers'', JNumber 20000 0),
      (js ''following'', JNumber 9 0),
      (js ''created_at'', JString (js ''2011-01-25T18:44:36Z''))]"

definition loginOnly :: json where
  "loginOnly = JObject [(js ''login'', JString (js ''octocat''))]"

text \<open>
  A network that gives the same two answers for every username, and answers to build it
  from. The code never reads the body of a response with a non-success status, so the
  samples of such responses carry none.
\<close>

definition answering :: "json fetched \<Rightarrow> 'r list fetched \<Rightarrow> bool \<Rightarrow> 'r network" where
  "answering profile repos reposFirst =
     \<lparr>profileEndpoint = (\<lambda>url. profile), reposEndpoint = (\<lambda>url. repos),
      reposSettleFirst = reposFirst\<rparr>"

definition rateHeaders :: "jsstring option \<Rightarrow> jsstring option \<Rightarrow> headers" where
  "rateHeaders r t =
     (\<lambda>name. if name = ''X-RateLimit-Remaining'' then r
             else if name = ''X-RateLimit-Reset'' then t else None)"

definition octocat :: "json fetched" where
  "octocat = Resolves \<lparr>status = 200,
     headers = rateHeaders (Some (js ''59'')) (Some (js ''1700000000'')),
     json = Inr octocatProfile\<rparr>"

definition octocatLoginOnly :: "json fetched" where
  "octocatLoginOnly = Resolves \<lparr>status = 200,
     headers = rateHeaders (Some (js ''59'')) (Some (js ''1700000000'')),
     json = Inr loginOnly\<rparr>"

definition octocatRepos :: "jsstring list fetched" where
  "octocatRepos = Resolves \<lparr>status = 200, headers = (\<lambda>name. None),
     json = Inr [js ''Hello-World'', js ''Spoon-Knife'']\<rparr>"

definition notFound :: "'a fetched" where
  "notFound = Resolves \<lparr>status = 404, headers = (\<lambda>name. None), json = Inl (js ''no body'')\<rparr>"

definition failedToFetch :: "'a fetched" where
  "failedToFetch = Rejects (js ''Failed to fetch'')"

definition recentSearches :: searchHistory where
  "recentSearches = loadHistory (\<lambda>key. if key = ''github-search-history''
     then Some [js ''torvalds'', js ''octocat'', js ''gaearon'', js ''sindresorhus'', js ''tj'']
     else None)"

definition forbidden :: "'a fetched" where
  "forbidden = Resolves \<lparr>status = 403, headers = (\<lambda>name. None), json = Inl (js ''no body'')\<rparr>"

definition octocatBare :: "json fetched" where
  "octocatBare = Resolves \<lparr>status = 200, headers = (\<lambda>name. None), json = Inr octocatProfile\<rparr>"

definition octocatGarbled :: "json fetched" where
  "octocatGarbled = Resolves \<lparr>status = 200,
     headers = rateHeaders (Some (js ''abc'')) (Some (js ''soon'')),
     json = Inr octocatProfile\<rparr>"

definition exhausted :: rateLimit where
  "exhausted = \<lparr>remaining = Num 0, reset = Num 1700003600\<rparr>"

definition exhaustedForever :: rateLimit where
  "exhaustedForever = \<lparr>remaining = Num 0, reset = Num 10000000000000\<rparr>"

section \<open>Properties\<close>

subsection \<open>Strings\<close>

lemma unat_of_char: "unat (of_char a :: 16 word) = of_char a"
proof (rule of_nat_inverse)
  show "word_of_nat (of_char a) = (of_char a :: 16 word)"
    by (rule of_nat_of_char)
  have "(of_char a :: nat) < 256"
    by (rule nat_of_char_less_256)
  then show "(of_char a :: nat) < 2 ^ LENGTH(16)"
    by (rule less_trans) simp
qed

lemma of_char_word16_inj: "(of_char a :: 16 word) = of_char b \<longleftrightarrow> a = b"
proof
  assume "(of_char a :: 16 word) = of_char b"
  then have "unat (of_char a :: 16 word) = unat (of_char b :: 16 word)" by (rule arg_cong)
  then have "(of_char a :: nat) = of_char b" by (simp only: unat_of_char)
  then show "a = b" by (rule of_char_eqI)
next
  assume "a = b" then show "(of_char a :: 16 word) = of_char b" by (rule arg_cong)
qed

lemma js_inject: "js a = js b \<longleftrightarrow> a = b"
  unfolding js_def
proof (induction a arbitrary: b)
  case Nil
  then show ?case by (cases b) simp_all
next
  case (Cons x xs)
  then show ?case
    by (cases b) (simp_all only: list.map list.inject of_char_word16_inj list.distinct)
qed

lemma js_Nil [simp]: "js [] = []"
  by (simp add: js_def)

lemma js_eq_Nil: "js s = [] \<longleftrightarrow> s = []"
  by (simp add: js_def)

lemma trim_Nil_iff: "trim s = [] \<longleftrightarrow> (\<forall>c\<in>set s. isWhiteSpace c)"
proof
  assume "trim s = []"
  then have all: "\<forall>c\<in>set (dropWhile isWhiteSpace s). isWhiteSpace c"
    by (simp add: trim_def dropWhile_eq_Nil_conv)
  have "dropWhile isWhiteSpace s = []"
  proof (rule ccontr)
    assume ne: "dropWhile isWhiteSpace s \<noteq> []"
    then have "\<not> isWhiteSpace (hd (dropWhile isWhiteSpace s))"
      by (rule hd_dropWhile)
    moreover have "hd (dropWhile isWhiteSpace s) \<in> set (dropWhile isWhiteSpace s)"
      using ne by (rule hd_in_set)
    ultimately show False using all by blast
  qed
  then show "\<forall>c\<in>set s. isWhiteSpace c"
    by (simp add: dropWhile_eq_Nil_conv)
next
  assume "\<forall>c\<in>set s. isWhiteSpace c"
  then have "dropWhile isWhiteSpace s = []"
    by (simp add: dropWhile_eq_Nil_conv)
  then show "trim s = []"
    by (simp only: trim_def rev.simps dropWhile.simps)
qed

lemma searchError_messages:
  "searchError (js ''Please enter a GitHub username'') = InvalidInput"
  "searchError (js ''User not found. Please check the username and try again.'') = UserNotFound"
  "searchError (js ''Rate limit exceeded. Please try again later.'') = RateLimited"
  "searchError (js ''API rate limit exceeded. Please try again later.'') = RateLimited"
  "searchError (js ''Failed to fetch user profile. Please try again.'') = FetchFailed"
  by (simp_all add: searchError_def js_inject)

subsection \<open>Search history\<close>

lemma addToHistory_history:
  assumes "boundedDistinct (history s)"
  shows "boundedDistinct (history (addToHistory username s))"
proof (cases "username \<in> set (history s)")
  case True
  then show ?thesis using assms by (simp add: addToHistory_def)
next
  case False
  with assms have d: "distinct (username # history s)"
    by (simp add: boundedDistinct_def)
  from assms have l: "length (history s) \<le> 5"
    by (simp add: boundedDistinct_def)
  show ?thesis
  proof (cases "length (username # history s) > 5")
    case True
    then have "history (addToHistory username s) = butlast (username # history s)"
      using False by (simp add: addToHistory_def Let_def)
    moreover have "distinct (butlast (username # history s))"
      using d by (rule distinct_butlast)
    moreover have "length (butlast (username # history s)) \<le> 5"
      using l by simp
    ultimately show ?thesis by (simp only: boundedDistinct_def)
  next
    case no: False
    then have "history (addToHistory username s) = username # history s"
      using False by (simp add: addToHistory_def Let_def)
    with d no show ?thesis by (simp add: boundedDistinct_def)
  qed
qed

lemma addToHistory_persisted:
  assumes "boundedDistinct (history s)" and "boundedDistinct (persisted s)"
  shows "boundedDistinct (persisted (addToHistory username s))"
proof (cases "username \<in> set (history s)")
  case True
  then show ?thesis using assms(2) by (simp add: addToHistory_def)
next
  case False
  then have "persisted (addToHistory username s) = history (addToHistory username s)"
    by (simp add: addToHistory_def persisted_def Let_def)
  with addToHistory_history [OF assms(1)] show ?thesis by simp
qed

lemma searches_bounded:
  "boundedDistinct (history s) \<Longrightarrow> boundedDistinct (persisted s) \<Longrightarrow>
   boundedDistinct (history (searches names s)) \<and> boundedDistinct (persisted (searches names s))"
proof (induction names arbitrary: s)
  case Nil
  then show ?case by simp
next
  case (Cons username rest)
  have "boundedDistinct (history (addToHistory username s))"
    using Cons.prems(1) by (rule addToHistory_history)
  moreover have "boundedDistinct (persisted (addToHistory username s))"
    using Cons.prems by (rule addToHistory_persisted)
  ultimately show ?case using Cons.IH by simp
qed

lemma loadHistory_persisted: "persisted (loadHistory st) = history (loadHistory st)"
  by (simp add: persisted_def loadHistory_def)

subsection \<open>Displaying a profile\<close>

lemma displayProfile_completes:
  "\<not> displayProfileThrows profile \<Longrightarrow> displayProfile engine profile repos = Inr (profile, repos)"
  by (simp add: displayProfile_def)

lemma displayProfile_throws:
  "displayProfileThrows profile \<Longrightarrow>
   displayProfile engine profile repos = Inl (typeErrorMessage engine profile)"
  by (simp add: displayProfile_def)

lemma octocatProfile_displays: "\<not> displayProfileThrows octocatProfile"
  by (simp add: displayProfileThrows_def octocatProfile_def property_def toStringThrows_def
      formatNumberThrows_def orValue_def js_inject)

lemma loginOnly_throws: "displayProfileThrows loginOnly"
  by (simp add: displayProfileThrows_def loginOnly_def property_def toStringThrows_def
      formatNumberThrows_def orValue_def js_inject)

text \<open>
  C10. Recording a username that is already anywhere in the history changes nothing:
  the array in memory and the stored entry stay as they are, and the entry keeps its
  position.
\<close>

theorem addToHistory_known_username:
  "username \<in> set (history s) \<Longrightarrow> addToHistory username s = s"
  by (simp add: addToHistory_def)

theorem addToHistory_known_username_witness:
  "js ''octocat'' \<in> set (history recentSearches) \<and>
   addToHistory (js ''octocat'') recentSearches = recentSearches"
proof -
  have h: "js ''octocat'' \<in> set (history recentSearches)"
    by (simp add: recentSearches_def loadHistory_def)
  from h addToHistory_known_username [OF h] show ?thesis by (rule conjI)
qed

text \<open>
  C7. Starting from a history of at most five pairwise distinct usernames, in memory and
  in storage, recording one more username leaves at most five pairwise distinct
  usernames in both, and so does any sequence of recordings.
\<close>

theorem history_stays_bounded_distinct:
  assumes "boundedDistinct (history s)" and "boundedDistinct (persisted s)"
  shows "boundedDistinct (history (addToHistory username s)) \<and>
         boundedDistinct (persisted (addToHistory username s)) \<and>
         boundedDistinct (history (searches names s)) \<and>
         boundedDistinct (persisted (searches names s))"
  using addToHistory_history [OF assms(1)] addToHistory_persisted [OF assms]
    searches_bounded [OF assms] by simp

theorem history_stays_bounded_distinct_witness:
  "boundedDistinct (history recentSearches) \<and> boundedDistinct (persisted recentSearches) \<and>
   boundedDistinct (history (addToHistory (js ''mojombo'') recentSearches)) \<and>
   boundedDistinct (persisted (addToHistory (js ''mojombo'') recentSearches)) \<and>
   boundedDistinct (history (searches [js ''mojombo'', js ''tj'', js ''mojombo''] recentSearches)) \<and>
   boundedDistinct (persisted (searches [js ''mojombo'', js ''tj'', js ''mojombo''] recentSearches))"
proof -
  have h: "boundedDistinct (history recentSearches)"
    by (simp add: recentSearches_def loadHistory_def boundedDistinct_def js_inject)
  have p: "boundedDistinct (persisted recentSearches)"
    using h by (simp add: recentSearches_def loadHistory_persisted)
  from h p history_stays_bounded_distinct [OF h p, of "js ''mojombo''"
      "[js ''mojombo'', js ''tj'', js ''mojombo'']"]
  show ?thesis by blast
qed

subsection \<open>The search pipeline\<close>

text \<open>
  C8. An input that is empty or all white space ends the search with the message of an
  invalid input; neither the rate gate nor the network is called, and the rate state
  stays as it is.
\<close>

theorem whitespace_input_invalid:
  assumes "\<forall>c\<in>set inputValue. isWhiteSpace c"
  shows "handleSearch engine net now st inputValue =
           \<lparr>shown = Inl (js ''Please enter a GitHub username''), calls = [],
            rateLimitAfter = st\<rparr> \<and>
         errorKind (handleSearch engine net now st inputValue) = Some InvalidInput"
proof -
  from assms have "trim inputValue = []"
    by (simp only: trim_Nil_iff)
  then show ?thesis
    by (simp add: handleSearch_def errorKind_def searchError_messages)
qed

theorem whitespace_input_invalid_witness:
  "isWhiteSpace 0x20 \<and> isWhiteSpace 0x09 \<and> isWhiteSpace 0xA0 \<and> isWhiteSpace 0x3000 \<and>
   handleSearch sampleEngine (answering octocat octocatRepos False) 1700000000000 initialRateLimit
       [0x20, 0x09, 0xA0, 0x3000] =
     \<lparr>shown = Inl (js ''Please enter a GitHub username''), calls = [],
      rateLimitAfter = initialRateLimit\<rparr> \<and>
   errorKind (handleSearch sampleEngine (answering octocat octocatRepos False) 1700000000000 initialRateLimit
       [0x20, 0x09, 0xA0, 0x3000]) = Some InvalidInput"
proof -
  have h: "\<forall>c\<in>set [0x20, 0x09, 0xA0, 0x3000]. isWhiteSpace c"
    by (simp add: isWhiteSpace_def)
  from h whitespace_input_invalid [OF h] show ?thesis by simp
qed

subsection \<open>The rate gate\<close>

lemma checkRateLimit_Num:
  "checkRateLimit now \<lparr>remaining = Num r, reset = Num t\<rparr> \<longleftrightarrow>
     \<not> (r \<le> 0 \<and> now < t * 1000 \<and> \<bar>t * 1000\<bar> \<le> 8640000000000000)"
  by (auto simp add: checkRateLimit_def lessEqZero_def newDate_def multiply_def)

text \<open>
  C3. For a rate state of two integers, \<open>checkRateLimit\<close> is false exactly
  when no request remains, the current time is strictly before the reset time, and the
  reset time in milliseconds is a time value that a \<open>Date\<close> can hold; in every other
  state it is true.
\<close>

theorem checkRateLimit_false_iff:
  "(\<not> checkRateLimit now \<lparr>remaining = Num r, reset = Num t\<rparr>) =
     (r \<le> 0 \<and> now < t * 1000 \<and> \<bar>t * 1000\<bar> \<le> 8640000000000000)"
  by (auto simp add: checkRateLimit_Num)

theorem checkRateLimit_false_iff_witness:
  "\<not> checkRateLimit 1700000000000 \<lparr>remaining = Num 0, reset = Num 1700003600\<rparr> \<and>
   checkRateLimit 1700003600000 \<lparr>remaining = Num 0, reset = Num 1700003600\<rparr> \<and>
   checkRateLimit 1700000000000 \<lparr>remaining = Num 1, reset = Num 1700003600\<rparr>"
  using checkRateLimit_false_iff [of 1700000000000 0 1700003600]
    checkRateLimit_false_iff [of 1700003600000 0 1700003600]
    checkRateLimit_false_iff [of 1700000000000 1 1700003600]
  by simp

text \<open>
  C3, beyond the range of \<open>Date\<close>: with a reset time of \<open>10 ^ 13\<close> seconds no request
  remains and the current time is before the reset time, yet the gate is open.
\<close>

theorem checkRateLimit_open_beyond_date_range:
  "remaining exhaustedForever = Num 0 \<and> reset exhaustedForever = Num 10000000000000 \<and>
   (1700000000000 :: int) < 10000000000000 * 1000 \<and>
   checkRateLimit 1700000000000 exhaustedForever"
  by (simp add: exhaustedForever_def checkRateLimit_Num)

text \<open>
  C4. When no request remains, the current time is strictly before the
  reset time and the reset time is within the range of \<open>Date\<close>, a search for a non-empty
  username ends with the message of the local rate limit, after the call of the gate
  alone: no request is sent, and the rate state stays as it is.
\<close>

theorem exhausted_gate_stops_search:
  assumes "trim inputValue \<noteq> []"
    and "remaining st = Num 0" and "reset st = Num t"
    and "now < t * 1000" and "\<bar>t * 1000\<bar> \<le> 8640000000000000"
  shows "handleSearch engine net now st inputValue =
           \<lparr>shown = Inl (js ''Rate limit exceeded. Please try again later.''),
            calls = [CheckRateLimit], rateLimitAfter = st\<rparr> \<and>
         errorKind (handleSearch engine net now st inputValue) = Some RateLimited"
proof -
  have "\<not> checkRateLimit now st"
    using assms(2-5)
    by (simp add: checkRateLimit_def lessEqZero_def newDate_def multiply_def)
  with assms(1) show ?thesis
    by (simp add: handleSearch_def errorKind_def searchError_messages)
qed

lemma trim_octocat: "trim (js ''octocat'') = js ''octocat''"
  by (simp add: trim_def js_def isWhiteSpace_def)

theorem exhausted_gate_stops_search_witness:
  "trim (js ''octocat'') \<noteq> [] \<and> remaining exhausted = Num 0 \<and>
   reset exhausted = Num 1700003600 \<and> (1700000000000 :: int) < 1700003600 * 1000 \<and>
   \<bar>1700003600 * 1000 :: int\<bar> \<le> 8640000000000000 \<and>
   handleSearch sampleEngine (answering octocat octocatRepos False) 1700000000000 exhausted (js ''octocat'') =
     \<lparr>shown = Inl (js ''Rate limit exceeded. Please try again later.''),
      calls = [CheckRateLimit], rateLimitAfter = exhausted\<rparr> \<and>
   errorKind (handleSearch sampleEngine (answering octocat octocatRepos False) 1700000000000 exhausted
     (js ''octocat'')) = Some RateLimited"
proof -
  have a: "trim (js ''octocat'') \<noteq> []"
    by (simp add: trim_octocat js_eq_Nil)
  have b: "remaining exhausted = Num 0" and c: "reset exhausted = Num 1700003600"
    by (simp_all add: exhausted_def)
  have d: "(1700000000000 :: int) < 1700003600 * 1000"
    and e: "\<bar>1700003600 * 1000 :: int\<bar> \<le> 8640000000000000"
    by simp_all
  from a b c d e exhausted_gate_stops_search [OF a b c d e] show ?thesis by blast
qed

text \<open>
  C4, beyond the range of \<open>Date\<close>: with a reset time of \<open>10 ^ 13\<close> seconds the gate is
  open, both requests are sent and the profile is displayed.
\<close>

theorem exhausted_gate_open_beyond_date_range:
  "remaining exhaustedForever = Num 0 \<and> reset exhaustedForever = Num 10000000000000 \<and>
   (1700000000000 :: int) < 10000000000000 * 1000 \<and>
   calls (handleSearch sampleEngine (answering octocat octocatRepos False) 1700000000000 exhaustedForever
     (js ''octocat'')) =
     [CheckRateLimit, Fetch (profileUrl (js ''octocat'')), Fetch (reposUrl (js ''octocat''))] \<and>
   shown (handleSearch sampleEngine (answering octocat octocatRepos False) 1700000000000 exhaustedForever
     (js ''octocat'')) = Inr (octocatProfile, [js ''Hello-World'', js ''Spoon-Knife''])"
proof -
  have open_gate: "checkRateLimit 1700000000000 exhaustedForever"
    by (simp add: exhaustedForever_def checkRateLimit_Num)
  have ne: "js ''octocat'' \<noteq> []"
    by (simp add: js_eq_Nil)
  show ?thesis
    using open_gate ne
    by (simp add: handleSearch_def trim_octocat fetchUserProfile_def fetchUserRepositories_def
        answering_def octocat_def octocatRepos_def ok_def Let_def
        displayProfile_completes [OF octocatProfile_displays])
      (simp add: exhaustedForever_def)
qed

subsection \<open>Rate-limit headers\<close>

lemma parseInt_zero: "parseInt (js ''0'') = Num 0"
  by (simp add: parseInt_def js_def isWhiteSpace_def isRadixDigit_def digitValue_def
      radixValue_def Let_def)

lemma orElse_missing: "headerMissing v \<Longrightarrow> orElse v d = d"
  by (auto simp add: headerMissing_def orElse_def)

lemma orElse_unparseable: "headerUnparseable v \<Longrightarrow> parseInt (orElse v d) = NaN"
  by (cases v) (simp_all add: headerUnparseable_def orElse_def)

lemma not_missing_and_unparseable: "headerUnparseable v \<Longrightarrow> \<not> headerMissing v"
  by (cases v) (simp_all add: headerUnparseable_def headerMissing_def)

lemma stored_header:
  assumes "headerMissing v \<or> headerUnparseable v"
  shows "parseInt (orElse v (js ''0'')) = (if headerMissing v then Num 0 else NaN)"
proof (cases "headerMissing v")
  case True
  then show ?thesis by (simp add: orElse_missing parseInt_zero)
next
  case False
  with assms have "headerUnparseable v" by simp
  with False show ?thesis by (simp add: orElse_unparseable)
qed

lemma checkRateLimit_zero_or_NaN:
  assumes "remaining st = Num 0 \<or> remaining st = NaN"
    and "reset st = Num 0 \<or> reset st = NaN" and "0 \<le> now"
  shows "checkRateLimit now st"
  using assms
  by (auto simp add: checkRateLimit_def lessEqZero_def newDate_def multiply_def)

lemma fetchUserProfile_ok_state:
  assumes "profileEndpoint net (profileUrl username) = Resolves response" and "ok response"
  shows "snd (fetchUserProfile net st username) = updateRateLimit (headers response) st"
  using assms by (simp add: fetchUserProfile_def)

text \<open>
  C5. After a successful profile response in which each of the two
  rate-limit headers is missing or unparseable, the rate state holds 0 for a missing
  header and \<open>NaN\<close> for an unparseable one, and at no current time from the epoch on does
  \<open>checkRateLimit\<close> block.
\<close>

theorem missing_rate_headers_never_block:
  assumes "profileEndpoint net (profileUrl username) = Resolves response" and "ok response"
    and "headerMissing (headers response ''X-RateLimit-Remaining'') \<or>
         headerUnparseable (headers response ''X-RateLimit-Remaining'')"
    and "headerMissing (headers response ''X-RateLimit-Reset'') \<or>
         headerUnparseable (headers response ''X-RateLimit-Reset'')"
    and "0 \<le> now"
  shows "remaining (snd (fetchUserProfile net st username)) =
           (if headerMissing (headers response ''X-RateLimit-Remaining'') then Num 0 else NaN) \<and>
         reset (snd (fetchUserProfile net st username)) =
           (if headerMissing (headers response ''X-RateLimit-Reset'') then Num 0 else NaN) \<and>
         checkRateLimit now (snd (fetchUserProfile net st username))"
proof -
  let ?st = "snd (fetchUserProfile net st username)"
  have st: "?st = updateRateLimit (headers response) st"
    using assms(1,2) by (rule fetchUserProfile_ok_state)
  have r: "remaining ?st =
      (if headerMissing (headers response ''X-RateLimit-Remaining'') then Num 0 else NaN)"
    unfolding st using stored_header [OF assms(3)] by (simp add: updateRateLimit_def)
  have t: "reset ?st =
      (if headerMissing (headers response ''X-RateLimit-Reset'') then Num 0 else NaN)"
    unfolding st using stored_header [OF assms(4)] by (simp add: updateRateLimit_def)
  have "checkRateLimit now ?st"
  proof (rule checkRateLimit_zero_or_NaN)
    show "remaining ?st = Num 0 \<or> remaining ?st = NaN" using r by simp
    show "reset ?st = Num 0 \<or> reset ?st = NaN" using t by simp
    show "0 \<le> now" by (rule assms(5))
  qed
  with r t show ?thesis by simp
qed

lemma parseInt_abc: "parseInt (js ''abc'') = NaN"
  by (simp add: parseInt_def js_def isWhiteSpace_def isRadixDigit_def digitValue_def Let_def)

lemma parseInt_soon: "parseInt (js ''soon'') = NaN"
  by (simp add: parseInt_def js_def isWhiteSpace_def isRadixDigit_def digitValue_def Let_def)

theorem missing_rate_headers_never_block_witness:
  "profileEndpoint (answering octocatBare octocatRepos False) (profileUrl (js ''octocat'')) =
     Resolves \<lparr>status = 200, headers = (\<lambda>name. None), json = Inr octocatProfile\<rparr> \<and>
   remaining (snd (fetchUserProfile (answering octocatBare octocatRepos False) exhausted
     (js ''octocat''))) = Num 0 \<and>
   reset (snd (fetchUserProfile (answering octocatBare octocatRepos False) exhausted
     (js ''octocat''))) = Num 0 \<and>
   checkRateLimit 1700000000000 (snd (fetchUserProfile
     (answering octocatBare octocatRepos False) exhausted (js ''octocat'')))"
proof -
  let ?response = "\<lparr>status = 200, headers = (\<lambda>name. None), json = Inr octocatProfile\<rparr>"
  have a: "profileEndpoint (answering octocatBare octocatRepos False) (profileUrl (js ''octocat''))
      = Resolves ?response"
    by (simp add: answering_def octocatBare_def)
  have b: "ok ?response"
    by (simp add: ok_def)
  have c: "headerMissing (headers ?response ''X-RateLimit-Remaining'') \<or>
      headerUnparseable (headers ?response ''X-RateLimit-Remaining'')"
    by (simp add: headerMissing_def)
  have d: "headerMissing (headers ?response ''X-RateLimit-Reset'') \<or>
      headerUnparseable (headers ?response ''X-RateLimit-Reset'')"
    by (simp add: headerMissing_def)
  have e: "(0 :: int) \<le> 1700000000000"
    by simp
  from a missing_rate_headers_never_block [OF a b c d e, of exhausted] show ?thesis
    by (simp add: headerMissing_def)
qed

text \<open>
  C5, unparseable header: for a header text without an integer the rate state holds
  \<open>NaN\<close>, not 0.
\<close>

theorem unparseable_remaining_header_stores_NaN:
  "headerUnparseable (Some (js ''abc'')) \<and>
   remaining (snd (fetchUserProfile (answering octocatGarbled octocatRepos False) exhausted
     (js ''octocat''))) = NaN \<and>
   NaN \<noteq> Num 0"
  by (simp add: headerUnparseable_def parseInt_abc js_eq_Nil fetchUserProfile_def answering_def
      octocatGarbled_def ok_def updateRateLimit_def rateHeaders_def orElse_def)

subsection \<open>The two requests of a search\<close>

lemma handleSearch_fetches:
  assumes "trim inputValue \<noteq> []" and "checkRateLimit now st"
  shows "shown (handleSearch engine net now st inputValue) =
           (case promiseAll (reposSettleFirst net)
                   (fst (fetchUserProfile net st (trim inputValue)))
                   (fetchUserRepositories net (trim inputValue)) of
              Inl error \<Rightarrow> Inl error
            | Inr (profile, repos) \<Rightarrow> displayProfile engine profile repos)"
    and "rateLimitAfter (handleSearch engine net now st inputValue) =
           snd (fetchUserProfile net st (trim inputValue))"
  using assms by (simp_all add: handleSearch_def Let_def split_beta)

lemma handleSearch_rejected:
  assumes "trim inputValue \<noteq> []" and "checkRateLimit now st"
    and "promiseAll (reposSettleFirst net) (fst (fetchUserProfile net st (trim inputValue)))
           (fetchUserRepositories net (trim inputValue)) = Inl error"
  shows "shown (handleSearch engine net now st inputValue) = Inl error"
  using handleSearch_fetches(1) [OF assms(1,2), of engine net] assms(3) by simp

lemma handleSearch_fulfilled:
  assumes "trim inputValue \<noteq> []" and "checkRateLimit now st"
    and "promiseAll (reposSettleFirst net) (fst (fetchUserProfile net st (trim inputValue)))
           (fetchUserRepositories net (trim inputValue)) = Inr (profile, repos)"
  shows "shown (handleSearch engine net now st inputValue) = displayProfile engine profile repos"
  using handleSearch_fetches(1) [OF assms(1,2), of engine net] assms(3) by simp

lemma promiseAll_first_rejects:
  "\<not> (secondFirst \<and> (\<exists>e. second = Inl e)) \<Longrightarrow> promiseAll secondFirst (Inl e1) second = Inl e1"
  by (cases second) auto

text \<open>
  C1. For a non-empty username that passes the gate, a profile response
  with a non-success status decides the error of the search by that status alone,
  whatever the repository request does, provided the repository promise does not reject
  before the profile promise settles: 404 gives the message of a user not found, 403 the
  message of the rate limit of the API, every other status the message of a failed fetch.
\<close>

theorem profile_status_decides_error:
  assumes "trim inputValue \<noteq> []" and "checkRateLimit now st"
    and "profileEndpoint net (profileUrl (trim inputValue)) = Resolves response"
    and "\<not> ok response"
    and "\<not> reposRejectFirst net (trim inputValue)"
  shows "shown (handleSearch engine net now st inputValue) =
           Inl (if status response = 404
                  then js ''User not found. Please check the username and try again.''
                else if status response = 403
                  then js ''API rate limit exceeded. Please try again later.''
                else js ''Failed to fetch user profile. Please try again.'') \<and>
         errorKind (handleSearch engine net now st inputValue) =
           Some (if status response = 404 then UserNotFound
                 else if status response = 403 then RateLimited else FetchFailed)"
proof -
  let ?message = "if status response = 404
      then js ''User not found. Please check the username and try again.''
    else if status response = 403
      then js ''API rate limit exceeded. Please try again later.''
    else js ''Failed to fetch user profile. Please try again.''"
  have profile: "fst (fetchUserProfile net st (trim inputValue)) = Inl ?message"
    using assms(3,4) by (simp add: fetchUserProfile_def)
  have "\<not> (reposSettleFirst net \<and> (\<exists>e. fetchUserRepositories net (trim inputValue) = Inl e))"
    using assms(5) by (auto simp add: reposRejectFirst_def)
  then have "promiseAll (reposSettleFirst net) (Inl ?message)
      (fetchUserRepositories net (trim inputValue)) = Inl ?message"
    by (rule promiseAll_first_rejects)
  then have "promiseAll (reposSettleFirst net) (fst (fetchUserProfile net st (trim inputValue)))
      (fetchUserRepositories net (trim inputValue)) = Inl ?message"
    by (simp only: profile)
  with assms(1,2) have shown: "shown (handleSearch engine net now st inputValue) = Inl ?message"
    by (rule handleSearch_rejected)
  then show ?thesis
    by (simp add: errorKind_def searchError_messages)
qed

lemma checkRateLimit_initial: "checkRateLimit now initialRateLimit"
  by (simp add: checkRateLimit_def initialRateLimit_def lessEqZero_def)

theorem profile_status_decides_error_witness:
  "trim (js ''octocat'') \<noteq> [] \<and> checkRateLimit 1700000000000 initialRateLimit \<and>
   \<not> reposRejectFirst (answering forbidden failedToFetch False :: jsstring network)
       (trim (js ''octocat'')) \<and>
   shown (handleSearch sampleEngine (answering forbidden failedToFetch False :: jsstring network)
       1700000000000 initialRateLimit (js ''octocat'')) =
     Inl (js ''API rate limit exceeded. Please try again later.'') \<and>
   errorKind (handleSearch sampleEngine (answering forbidden failedToFetch False :: jsstring network)
       1700000000000 initialRateLimit (js ''octocat'')) = Some RateLimited"
proof -
  let ?net = "answering forbidden failedToFetch False :: jsstring network"
  let ?response = "\<lparr>status = 403, headers = (\<lambda>name. None),
      json = Inl (js ''no body'') :: jsstring + json\<rparr>"
  have a: "trim (js ''octocat'') \<noteq> []"
    by (simp add: trim_octocat js_eq_Nil)
  have b: "checkRateLimit 1700000000000 initialRateLimit"
    by (rule checkRateLimit_initial)
  have c: "profileEndpoint ?net (profileUrl (trim (js ''octocat''))) = Resolves ?response"
    by (simp add: answering_def forbidden_def)
  have d: "\<not> ok ?response"
    by (simp add: ok_def)
  have e: "\<not> reposRejectFirst ?net (trim (js ''octocat''))"
    by (simp add: reposRejectFirst_def fetchUserRepositories_def answering_def failedToFetch_def)
  from a b e profile_status_decides_error [OF a b c d e, of sampleEngine] show ?thesis
    by simp
qed

text \<open>
  C1, the race: where the repository request rejects before the profile response
  arrives, after a 404 response the search shows the message of the transport failure,
  an error of kind \<open>FetchFailed\<close>.
\<close>

theorem repos_rejection_overrides_not_found:
  "profileEndpoint (answering notFound failedToFetch True :: jsstring network)
       (profileUrl (trim (js ''octocat''))) =
     Resolves \<lparr>status = 404, headers = (\<lambda>name. None), json = Inl (js ''no body'')\<rparr> \<and>
   checkRateLimit 1700000000000 initialRateLimit \<and>
   shown (handleSearch sampleEngine (answering notFound failedToFetch True :: jsstring network)
       1700000000000 initialRateLimit (js ''octocat'')) = Inl (js ''Failed to fetch'') \<and>
   errorKind (handleSearch sampleEngine (answering notFound failedToFetch True :: jsstring network)
       1700000000000 initialRateLimit (js ''octocat'')) = Some FetchFailed"
proof -
  let ?net = "answering notFound failedToFetch True :: jsstring network"
  have a: "trim (js ''octocat'') \<noteq> []"
    by (simp add: trim_octocat js_eq_Nil)
  have b: "checkRateLimit 1700000000000 initialRateLimit"
    by (rule checkRateLimit_initial)
  have "promiseAll (reposSettleFirst ?net)
      (fst (fetchUserProfile ?net initialRateLimit (trim (js ''octocat''))))
      (fetchUserRepositories ?net (trim (js ''octocat''))) = Inl (js ''Failed to fetch'')"
    by (simp add: fetchUserProfile_def fetchUserRepositories_def answering_def notFound_def
        failedToFetch_def ok_def)
  with a b have shown:
    "shown (handleSearch sampleEngine ?net 1700000000000 initialRateLimit (js ''octocat'')) =
      Inl (js ''Failed to fetch'')"
    by (rule handleSearch_rejected)
  have "searchError (js ''Failed to fetch'') = FetchFailed"
    by (simp add: searchError_def js_inject)
  with shown b show ?thesis
    by (simp add: errorKind_def answering_def notFound_def)
qed

text \<open>
  C2. When the profile request succeeds with a body that \<open>displayProfile\<close> displays
  without an error, a repository response with a non-success status gives an empty
  repository list, and the search displays the profile with that list.
\<close>

theorem repos_status_failure_degrades:
  assumes "trim inputValue \<noteq> []" and "checkRateLimit now st"
    and "profileEndpoint net (profileUrl (trim inputValue)) = Resolves presponse"
    and "ok presponse" and "json presponse = Inr profile"
    and "\<not> displayProfileThrows profile"
    and "reposEndpoint net (reposUrl (trim inputValue)) = Resolves rresponse"
    and "\<not> ok rresponse"
  shows "fetchUserRepositories net (trim inputValue) = Inr [] \<and>
         shown (handleSearch engine net now st inputValue) = Inr (profile, []) \<and>
         errorKind (handleSearch engine net now st inputValue) = None"
proof -
  have p: "fst (fetchUserProfile net st (trim inputValue)) = Inr profile"
    using assms(3-5) by (simp add: fetchUserProfile_def)
  have r: "fetchUserRepositories net (trim inputValue) = Inr []"
    using assms(7,8) by (simp add: fetchUserRepositories_def)
  have "promiseAll (reposSettleFirst net) (fst (fetchUserProfile net st (trim inputValue)))
      (fetchUserRepositories net (trim inputValue)) = Inr (profile, [])"
    by (simp add: p r)
  with assms(1,2)
  have "shown (handleSearch engine net now st inputValue) = displayProfile engine profile []"
    by (rule handleSearch_fulfilled)
  also have "\<dots> = Inr (profile, [])"
    using assms(6) by (rule displayProfile_completes)
  finally show ?thesis
    using r by (simp add: errorKind_def)
qed

theorem repos_status_failure_degrades_witness:
  "trim (js ''octocat'') \<noteq> [] \<and> checkRateLimit 1700000000000 initialRateLimit \<and>
   \<not> displayProfileThrows octocatProfile \<and>
   fetchUserRepositories (answering octocat (forbidden :: jsstring list fetched) False)
       (trim (js ''octocat'')) = Inr [] \<and>
   shown (handleSearch sampleEngine (answering octocat forbidden False) 1700000000000
       initialRateLimit (js ''octocat'')) = Inr (octocatProfile, ([] :: jsstring list)) \<and>
   errorKind (handleSearch sampleEngine (answering octocat (forbidden :: jsstring list fetched) False)
       1700000000000 initialRateLimit (js ''octocat'')) = None"
proof -
  let ?net = "answering octocat (forbidden :: jsstring list fetched) False"
  let ?presponse = "\<lparr>status = 200,
      headers = rateHeaders (Some (js ''59'')) (Some (js ''1700000000'')),
      json = Inr octocatProfile :: jsstring + json\<rparr>"
  let ?rresponse = "\<lparr>status = 403, headers = (\<lambda>name. None),
      json = Inl (js ''no body'') :: jsstring + jsstring list\<rparr>"
  have a: "trim (js ''octocat'') \<noteq> []"
    by (simp add: trim_octocat js_eq_Nil)
  have b: "checkRateLimit 1700000000000 initialRateLimit"
    by (rule checkRateLimit_initial)
  have c: "profileEndpoint ?net (profileUrl (trim (js ''octocat''))) = Resolves ?presponse"
    by (simp add: answering_def octocat_def)
  have d: "ok ?presponse"
    by (simp add: ok_def)
  have e: "json ?presponse = Inr octocatProfile"
    by simp
  have f: "\<not> displayProfileThrows octocatProfile"
    by (rule octocatProfile_displays)
  have g: "reposEndpoint ?net (reposUrl (trim (js ''octocat''))) = Resolves ?rresponse"
    by (simp add: answering_def forbidden_def)
  have h: "\<not> ok ?rresponse"
    by (simp add: ok_def)
  from a b f repos_status_failure_degrades [OF a b c d e f g h, of sampleEngine] show ?thesis
    by simp
qed

text \<open>
  C2, transport failure and display failure: the profile request succeeds with a body
  that \<open>displayProfile\<close> displays and the repository request is rejected; the search ends
  with the message of that failure. And the profile request succeeds with a body that has
  no \<open>followers\<close>, while the repository response has status 403 and gives the empty list;
  \<open>displayProfile\<close> throws, and the search ends with the message of the engine's error.
\<close>

theorem search_fails_after_profile_success:
  "fst (fetchUserProfile (answering octocat (failedToFetch :: jsstring list fetched) False)
       initialRateLimit (trim (js ''octocat''))) = Inr octocatProfile \<and>
   \<not> displayProfileThrows octocatProfile \<and>
   checkRateLimit 1700000000000 initialRateLimit \<and>
   shown (handleSearch sampleEngine (answering octocat (failedToFetch :: jsstring list fetched) False)
       1700000000000 initialRateLimit (js ''octocat'')) = Inl (js ''Failed to fetch'') \<and>
   fst (fetchUserProfile (answering octocatLoginOnly (forbidden :: jsstring list fetched) False)
       initialRateLimit (trim (js ''octocat''))) = Inr loginOnly \<and>
   fetchUserRepositories (answering octocatLoginOnly (forbidden :: jsstring list fetched) False)
       (trim (js ''octocat'')) = Inr [] \<and>
   shown (handleSearch sampleEngine
       (answering octocatLoginOnly (forbidden :: jsstring list fetched) False)
       1700000000000 initialRateLimit (js ''octocat'')) = Inl (js ''num is undefined'')"
proof -
  let ?net = "answering octocat (failedToFetch :: jsstring list fetched) False"
  let ?bare = "answering octocatLoginOnly (forbidden :: jsstring list fetched) False"
  have a: "trim (js ''octocat'') \<noteq> []"
    by (simp add: trim_octocat js_eq_Nil)
  have b: "checkRateLimit 1700000000000 initialRateLimit"
    by (rule checkRateLimit_initial)
  have p: "fst (fetchUserProfile ?net initialRateLimit (trim (js ''octocat''))) =
      Inr octocatProfile"
    by (simp add: fetchUserProfile_def answering_def octocat_def ok_def)
  have "promiseAll (reposSettleFirst ?net)
      (fst (fetchUserProfile ?net initialRateLimit (trim (js ''octocat''))))
      (fetchUserRepositories ?net (trim (js ''octocat''))) = Inl (js ''Failed to fetch'')"
    unfolding p by (simp add: fetchUserRepositories_def answering_def failedToFetch_def)
  with a b have transport:
    "shown (handleSearch sampleEngine ?net 1700000000000 initialRateLimit (js ''octocat'')) =
      Inl (js ''Failed to fetch'')"
    by (rule handleSearch_rejected)
  have q: "fst (fetchUserProfile ?bare initialRateLimit (trim (js ''octocat''))) = Inr loginOnly"
    by (simp add: fetchUserProfile_def answering_def octocatLoginOnly_def ok_def)
  have r: "fetchUserRepositories ?bare (trim (js ''octocat'')) = Inr []"
    by (simp add: fetchUserRepositories_def answering_def forbidden_def ok_def)
  have "promiseAll (reposSettleFirst ?bare)
      (fst (fetchUserProfile ?bare initialRateLimit (trim (js ''octocat''))))
      (fetchUserRepositories ?bare (trim (js ''octocat''))) = Inr (loginOnly, [])"
    unfolding q r by simp
  with a b have
    "shown (handleSearch sampleEngine ?bare 1700000000000 initialRateLimit (js ''octocat'')) =
      displayProfile sampleEngine loginOnly []"
    by (rule handleSearch_fulfilled)
  also have "\<dots> = Inl (typeErrorMessage sampleEngine loginOnly)"
    using loginOnly_throws by (rule displayProfile_throws)
  also have "\<dots> = Inl (js ''num is undefined'')"
    by (simp add: sampleEngine_def)
  finally have display:
    "shown (handleSearch sampleEngine ?bare 1700000000000 initialRateLimit (js ''octocat'')) =
      Inl (js ''num is undefined'')" .
  from p octocatProfile_displays b transport q r display show ?thesis
    by simp
qed

subsection \<open>Formatting numbers\<close>

lemma binaryExponent_reaches: "0 < n \<Longrightarrow> 2 ^ 52 * d \<le> n * 2 ^ binaryExponent n d k"
proof (induction n d k rule: binaryExponent.induct)
  case (1 n d k)
  show ?case
  proof (cases "n = 0 \<or> 2 ^ 52 * d \<le> n * 2 ^ k")
    case True
    with "1.prems" show ?thesis
      by (subst binaryExponent.simps) simp
  next
    case False
    then have "binaryExponent n d k = binaryExponent n d (Suc k)"
      by (subst binaryExponent.simps) simp
    with "1.IH" [OF False "1.prems"] show ?thesis
      by simp
  qed
qed

lemma roundHalfEven_near:
  assumes "0 < b"
  shows "2 * (roundHalfEven a b * b) \<le> 2 * a + b \<and> 2 * a \<le> 2 * (roundHalfEven a b * b) + b"
proof -
  define q r where "q = a div b" and "r = a mod b"
  have a: "a = q * b + r" and r: "r < b"
    using assms by (simp_all add: q_def r_def)
  have "roundHalfEven a b = q \<and> 2 * r \<le> b \<or> roundHalfEven a b = q + 1 \<and> b \<le> 2 * r"
    by (auto simp add: roundHalfEven_def Let_def q_def r_def)
  then show ?thesis
  proof
    assume "roundHalfEven a b = q \<and> 2 * r \<le> b"
    then show ?thesis using a by simp
  next
    assume h: "roundHalfEven a b = q + 1 \<and> b \<le> 2 * r"
    then have "roundHalfEven a b * b = q * b + b" by simp
    then show ?thesis using a r h by linarith
  qed
qed

lemma tenths_bounds:
  "2 * 2 ^ exponent x * tenths x \<le> 20 * significand x + 2 ^ exponent x \<and>
   20 * significand x + 2 ^ exponent x < 2 * 2 ^ exponent x * (tenths x + 1)"
proof -
  define y :: nat where "y = 2 * 2 ^ exponent x"
  define z where "z = 20 * significand x + 2 ^ exponent x"
  have "0 < y" by (simp add: y_def)
  have t: "tenths x = z div y" by (simp add: tenths_def z_def y_def)
  have "y * (z div y) \<le> z" by simp
  moreover have "z < y * (z div y + 1)"
    using \<open>0 < y\<close> by (metis Suc_eq_plus1 dividend_less_times_div mult.commute mult_Suc_right add.commute)
  ultimately show ?thesis
    unfolding t y_def [symmetric] z_def [symmetric] by simp
qed

lemma nearest_tenth_arith:
  fixes E p m n q :: nat
  assumes small: "10 * E < p"
    and m1: "2 * (m * (20 * E)) \<le> 2 * (n * p) + 20 * E"
    and m2: "2 * (n * p) \<le> 2 * (m * (20 * E)) + 20 * E"
    and q1: "2 * p * q \<le> 20 * m + p"
    and q2: "20 * m + p < 2 * p * (q + 1)"
  shows "2 * E * q \<le> n + E" and "n \<le> 2 * E * q + E"
proof -
  have pos: "0 < p" using small by simp
  have "(2 * p * q) * (2 * E) \<le> (20 * m + p) * (2 * E)"
    using q1 by (rule mult_le_mono1)
  then have a: "4 * (p * (E * q)) \<le> 40 * (m * E) + 2 * (p * E)"
    by (simp add: algebra_simps)
  have b: "40 * (m * E) \<le> 2 * (n * p) + 20 * E"
    using m1 by (simp add: algebra_simps)
  have "4 * (p * (E * q)) \<le> 2 * (n * p) + 20 * E + 2 * (p * E)"
    using a b by linarith
  then have "2 * (p * (E * q)) < n * p + p + p * E"
    using small by linarith
  then have "p * (2 * E * q) < p * (n + E + 1)"
    by (simp add: algebra_simps)
  then have "2 * E * q < n + E + 1"
    by (rule mult_less_cancel1 [THEN iffD1, THEN conjunct2])
  then show "2 * E * q \<le> n + E" by simp
  have "20 * m + p \<le> 2 * p * (q + 1)"
    using q2 by (rule less_imp_le)
  then have "(20 * m + p) * (2 * E) \<le> (2 * p * (q + 1)) * (2 * E)"
    by (rule mult_le_mono1)
  then have c: "40 * (m * E) + 2 * (p * E) \<le> 4 * (p * (E * q)) + 4 * (p * E)"
    by (simp add: algebra_simps)
  have d: "2 * (n * p) \<le> 40 * (m * E) + 20 * E"
    using m2 by (simp add: algebra_simps)
  have "2 * (n * p) + 2 * (p * E) \<le> 4 * (p * (E * q)) + 4 * (p * E) + 20 * E"
    using c d by linarith
  then have "n * p < 2 * (p * (E * q)) + p * E + p"
    using small by linarith
  then have "p * n < p * (2 * E * q + E + 1)"
    by (simp add: algebra_simps)
  then have "n < 2 * E * q + E + 1"
    by (rule mult_less_cancel1 [THEN iffD1, THEN conjunct2])
  then show "n \<le> 2 * E * q + E" by simp
qed

lemma quotient_nearest_tenth:
  assumes "0 < n" and "n < 2 ^ 53" and "0 < E"
  shows "nearestTenth n (20 * E) (tenths (quotient n (20 * E)))"
proof -
  define k where "k = binaryExponent n (20 * E) 0"
  define p :: nat where "p = 2 ^ k"
  define m where "m = roundHalfEven (n * p) (20 * E)"
  define x where "x = quotient n (20 * E)"
  have x: "significand x = m" "exponent x = k"
    by (simp_all add: x_def quotient_def Let_def k_def m_def p_def)
  have "2 ^ 52 * (20 * E) \<le> n * p"
    unfolding p_def k_def using assms(1) by (rule binaryExponent_reaches)
  also have "n * p < 2 ^ 53 * p"
    using assms(2) by (simp add: p_def)
  finally have small: "10 * E < p" by simp
  have d: "0 < 20 * E" using assms(3) by simp
  from roundHalfEven_near [OF d, of "n * p"]
  have m1: "2 * (m * (20 * E)) \<le> 2 * (n * p) + 20 * E"
    and m2: "2 * (n * p) \<le> 2 * (m * (20 * E)) + 20 * E"
    by (simp_all add: m_def)
  from tenths_bounds [of x]
  have q1: "2 * p * tenths x \<le> 20 * m + p" and q2: "20 * m + p < 2 * p * (tenths x + 1)"
    by (simp_all add: x p_def)
  from nearest_tenth_arith [OF small m1 m2 q1 q2]
  show ?thesis
    unfolding x_def [symmetric] by (simp add: nearestTenth_def)
qed
text \<open>
  \<open>toStringNat n\<close> is a decimal numeral of \<open>n\<close>: its code units are decimal digits and
  their value in radix 10, as \<open>parseInt\<close> reads it, is \<open>n\<close>.
\<close>

lemma unat_digit:
  assumes "d < 10"
  shows "unat (of_nat (48 + d) :: 16 word) = 48 + d"
proof -
  have "unat (of_nat (48 + d) :: 16 word) = (48 + d) mod 2 ^ LENGTH(16)"
    by (rule unat_of_nat)
  also have "\<dots> = 48 + d"
    using assms by simp
  finally show ?thesis .
qed

lemma digitValue_digit: "d < 10 \<Longrightarrow> digitValue (of_nat (48 + d)) = Some d"
proof -
  assume d: "d < 10"
  have u: "unat (of_nat (48 + d) :: 16 word) = 48 + d" using d by (rule unat_digit)
  have "(0x30 :: 16 word) \<le> of_nat (48 + d)" 
    unfolding word_le_nat_alt u by simp
  moreover have "(of_nat (48 + d) :: 16 word) \<le> 0x39"
    unfolding word_le_nat_alt u using d by simp
  ultimately show ?thesis
    unfolding digitValue_def u by simp
qed

lemma radixValue_snoc:
  "radixValue R (Z @ [c]) = radixValue R Z * R + the (digitValue c)"
  by (simp add: radixValue_def)

lemma radixValue_toStringNat: "radixValue 10 (toStringNat n) = n"
proof (induction n rule: toStringNat.induct)
  case (1 n)
  show ?case
  proof (cases "n < 10")
    case True
    then show ?thesis
      by (subst toStringNat.simps) (simp add: radixValue_def digitValue_digit del: of_nat_add)
  next
    case False
    have "n mod 10 < 10" by simp
    then have "digitValue (of_nat (48 + n mod 10)) = Some (n mod 10)"
      by (rule digitValue_digit)
    with False "1.IH" show ?thesis
      by (subst toStringNat.simps) (simp add: radixValue_snoc del: of_nat_add)
  qed
qed

lemma toStringNat_digits: "c \<in> set (toStringNat n) \<Longrightarrow> isRadixDigit 10 c"
proof (induction n rule: toStringNat.induct)
  case (1 n)
  show ?case
  proof (cases "n < 10")
    case True
    with "1.prems" have "c = of_nat (48 + n)"
      by (subst (asm) toStringNat.simps) (simp del: of_nat_add)
    with True show ?thesis
      by (simp add: isRadixDigit_def digitValue_digit del: of_nat_add)
  next
    case False
    with "1.prems" have "c \<in> set (toStringNat (n div 10)) \<or> c = of_nat (48 + n mod 10)"
      by (subst (asm) toStringNat.simps) (auto simp del: of_nat_add)
    then show ?thesis
    proof
      assume "c \<in> set (toStringNat (n div 10))"
      with False show ?thesis by (rule "1.IH")
    next
      have "n mod 10 < 10" by simp
      then have "digitValue (of_nat (48 + n mod 10)) = Some (n mod 10)"
        by (rule digitValue_digit)
      moreover assume "c = of_nat (48 + n mod 10)"
      ultimately show ?thesis by (simp add: isRadixDigit_def del: of_nat_add)
    qed
  qed
qed

lemma formatNumber_below_1000: "n < 1000 \<Longrightarrow> formatNumber n = toStringNat n"
  by (simp add: formatNumber_def)

lemma formatNumber_K:
  assumes "1000 \<le> n" and "n < 1000000"
  shows "\<exists>q. nearestTenth n 1000 q \<and> formatNumber n = oneDecimal q @ js ''K''"
proof -
  have "nearestTenth n (20 * 50) (tenths (quotient n (20 * 50)))"
    using assms by (intro quotient_nearest_tenth) simp_all
  moreover have "formatNumber n = oneDecimal (tenths (quotient n 1000)) @ js ''K''"
    using assms by (simp add: formatNumber_def toFixed1_def)
  ultimately show ?thesis by auto
qed

lemma formatNumber_M:
  assumes "1000000 \<le> n" and "n < 2 ^ 53"
  shows "\<exists>q. nearestTenth n 1000000 q \<and> formatNumber n = oneDecimal q @ js ''M''"
proof -
  have "nearestTenth n (20 * 50000) (tenths (quotient n (20 * 50000)))"
    using assms by (intro quotient_nearest_tenth) simp_all
  moreover have "formatNumber n = oneDecimal (tenths (quotient n 1000000)) @ js ''M''"
    using assms by (simp add: formatNumber_def toFixed1_def)
  ultimately show ?thesis by auto
qed

lemmas formatNumber_eval =
  formatNumber_def toFixed1_def oneDecimal_def tenths_def quotient_def binaryExponent.simps
  roundHalfEven_def Let_def toStringNat.simps js_def

lemma formatNumber_999: "formatNumber 999 = js ''999''"
  by (simp add: formatNumber_eval)

lemma formatNumber_1500: "formatNumber 1500 = js ''1.5K''"
  by (simp add: formatNumber_eval)

lemma formatNumber_2500000: "formatNumber 2500000 = js ''2.5M''"
  by (simp add: formatNumber_eval)

text \<open>
  C6. For every non-negative integer \<open>n\<close> that a number holds exactly
  (\<open>n < 2 ^ 53\<close>), \<open>formatNumber n\<close> is the decimal numeral of \<open>n\<close> when \<open>n\<close> is below 1000; when
  \<open>n\<close> is at least 1000 and below 1000000 it is a nearest tenth of \<open>n / 1000\<close>, printed with
  one decimal, followed by \<open>K\<close>; and when \<open>n\<close> is at least 1000000 it is a nearest tenth of
  \<open>n / 1000000\<close>, printed with one decimal, followed by \<open>M\<close>. In particular 999 gives
  \<open>999\<close>, 1500 gives \<open>1.5K\<close> and 2500000 gives \<open>2.5M\<close>.
\<close>

theorem formatNumber_abbreviates:
  assumes "n < 2 ^ 53"
  shows "(if n < 1000
            then formatNumber n = toStringNat n \<and> radixValue 10 (formatNumber n) = n
          else if n < 1000000
            then \<exists>q. nearestTenth n 1000 q \<and> formatNumber n = oneDecimal q @ js ''K''
          else \<exists>q. nearestTenth n 1000000 q \<and> formatNumber n = oneDecimal q @ js ''M'') \<and>
         formatNumber 999 = js ''999'' \<and> formatNumber 1500 = js ''1.5K'' \<and>
         formatNumber 2500000 = js ''2.5M''"
proof -
  have "if n < 1000
          then formatNumber n = toStringNat n \<and> radixValue 10 (formatNumber n) = n
        else if n < 1000000
          then \<exists>q. nearestTenth n 1000 q \<and> formatNumber n = oneDecimal q @ js ''K''
        else \<exists>q. nearestTenth n 1000000 q \<and> formatNumber n = oneDecimal q @ js ''M''"
  proof (cases "n < 1000")
    case True
    then show ?thesis by (simp add: formatNumber_below_1000 radixValue_toStringNat)
  next
    case False
    show ?thesis
    proof (cases "n < 1000000")
      case True
      with False formatNumber_K [of n] show ?thesis by simp
    next
      case False
      with assms formatNumber_M [of n] show ?thesis by simp
    qed
  qed
  then show ?thesis
    using formatNumber_999 formatNumber_1500 formatNumber_2500000 by simp
qed

theorem formatNumber_abbreviates_witness:
  "(1234567 :: nat) < 2 ^ 53 \<and>
   (\<exists>q. nearestTenth 1234567 1000000 q \<and> formatNumber 1234567 = oneDecimal q @ js ''M'') \<and>
   formatNumber 999 = js ''999'' \<and> formatNumber 1500 = js ''1.5K'' \<and>
   formatNumber 2500000 = js ''2.5M''"
proof -
  have h: "(1234567 :: nat) < 2 ^ 53" by simp
  from h formatNumber_abbreviates [OF h] show ?thesis by simp
qed

text \<open>
  C6, the thresholds: the abbreviations include them, so 1000 is
  printed as \<open>1.0K\<close>, not as \<open>1000\<close>, and 1000000 as \<open>1.0M\<close>, not as \<open>1000.0K\<close>.
\<close>

theorem formatNumber_at_thresholds:
  "formatNumber 1000 = js ''1.0K'' \<and> toStringNat 1000 = js ''1000'' \<and>
   formatNumber 1000 \<noteq> toStringNat 1000 \<and>
   formatNumber 1000000 = js ''1.0M'' \<and> formatNumber 1000000 \<noteq> js ''1000.0K''"
proof -
  have a: "formatNumber 1000 = js ''1.0K''"
    by (simp add: formatNumber_eval)
  have b: "toStringNat 1000 = js ''1000''"
    by (simp add: toStringNat.simps js_def)
  have c: "formatNumber 1000000 = js ''1.0M''"
    by (simp add: formatNumber_eval)
  show ?thesis
    unfolding a b c by (simp add: js_inject)
qed
end
